theory Spec2Isabelle
  imports Main
begin

section \<open>Python strings\<close>

text \<open>
  A Python \<open>str\<close> is modelled as a \<open>string\<close> whose characters are code points below 256,
  one \<open>char\<close> per code point. \<open>is_space\<close> is \<open>str.isspace\<close> on that range (the characters
  \<open>str.strip()\<close> removes), \<open>lower_char\<close> is \<open>str.lower\<close> on one such character (ASCII and
  Latin-1 capitals, the multiplication sign excepted).
\<close>

definition is_space :: "char \<Rightarrow> bool" where
  "is_space c =
     (let n = (of_char c :: nat)
      in (9 \<le> n \<and> n \<le> 13) \<or> (28 \<le> n \<and> n \<le> 32) \<or> n = 133 \<or> n = 160)"

definition strip :: "string \<Rightarrow> string" where
  "strip s = rev (dropWhile is_space (rev (dropWhile is_space s)))"

definition lower_char :: "char \<Rightarrow> char" where
  "lower_char c =
     (let n = (of_char c :: nat)
      in if (65 \<le> n \<and> n \<le> 90) \<or> (192 \<le> n \<and> n \<le> 222 \<and> n \<noteq> 215)
         then char_of (n + 32) else c)"

definition lower :: "string \<Rightarrow> string" where
  "lower s = map lower_char s"

text \<open>\<open>s.rstrip(".")\<close>: every trailing full stop is removed.\<close>

definition rstrip_dot :: "string \<Rightarrow> string" where
  "rstrip_dot s = rev (dropWhile (\<lambda>c. c = CHR ''.'') (rev s))"

text \<open>\<open>str(n)\<close> for a Python integer, as an f-string formats it.\<close>

function str_nat :: "nat \<Rightarrow> string" where
  "str_nat n =
     (if n < 10 then [char_of (48 + n)]
      else str_nat (n div 10) @ [char_of (48 + n mod 10)])"
  by pat_completeness auto
termination
  by (relation "measure id") auto

definition str_int :: "int \<Rightarrow> string" where
  "str_int i = (if i < 0 then CHR ''-'' # str_nat (nat (- i)) else str_nat (nat i))"

section \<open>Exceptions and the network\<close>

text \<open>
  An instance of \<open>Exception\<close>, by the classes the handlers of the program tell apart; the
  argument is \<open>str(exc)\<close>. \<open>ConnectionRefusedError\<close> is what \<open>smtplib.SMTP(...)\<close> raises
  when the host refuses the TCP connection on port 25: an \<open>OSError\<close>, of none of the
  classes a handler names (\<open>SMTPConnectError\<close> is raised for a greeting other than 220).
  \<open>OtherException\<close> is an instance of none of the six classes.
\<close>

datatype exn =
    ImportError string
  | Gaierror string
  | SocketTimeout string
  | SMTPServerDisconnected string
  | SMTPConnectError string
  | ConnectionRefusedError string
  | OtherException string

fun str_exc :: "exn \<Rightarrow> string" where
  "str_exc (ImportError m) = m"
| "str_exc (Gaierror m) = m"
| "str_exc (SocketTimeout m) = m"
| "str_exc (SMTPServerDisconnected m) = m"
| "str_exc (SMTPConnectError m) = m"
| "str_exc (ConnectionRefusedError m) = m"
| "str_exc (OtherException m) = m"

text \<open>
  The calls that reach for the network, with the host or domain asked and the timeout
  passed: the MX query of dnspython, \<open>socket.getaddrinfo\<close>, and the SMTP session on port
  25. The program's functions take the list of the calls attempted so far and return it
  extended, one entry for each \<open>try\<close> block entered.
\<close>

datatype net_call =
    MXQuery string int
  | GetAddrInfo string int
  | SMTPConnect string int

text \<open>
  The network answers a call given the calls made before it, so that the same host may
  answer differently the second time. Each answer is what the body of the \<open>try\<close> block
  around the call produces:
  \<^item> \<open>dns_mx\<close>: importing \<open>dns.resolver\<close>, building the resolver and resolving the MX
    records raises, or yields \<open>str(rdata.exchange)\<close> for each answer, in order;
  \<^item> \<open>getaddrinfo\<close>: \<open>socket.setdefaulttimeout\<close> and \<open>socket.getaddrinfo\<close> raise or return;
  \<^item> \<open>smtp_noop\<close>: the \<open>with smtplib.SMTP(...)\<close> block raises (on connecting, on
    \<open>noop()\<close> or on leaving the block), or \<open>noop()\<close> returns the reply code and the block
    is left without raising.
\<close>

record network =
  dns_mx :: "net_call list \<Rightarrow> string \<Rightarrow> int \<Rightarrow> exn + string list"
  getaddrinfo :: "net_call list \<Rightarrow> string \<Rightarrow> int \<Rightarrow> exn + unit"
  smtp_noop :: "net_call list \<Rightarrow> string \<Rightarrow> int \<Rightarrow> exn + int"

section \<open>smtp\_checker.py\<close>

record result =
  status :: string
  message :: string

definition get_mx_hosts_via_dnspython ::
  "network \<Rightarrow> net_call list \<Rightarrow> string \<Rightarrow> int \<Rightarrow> string list \<times> net_call list" where
  "get_mx_hosts_via_dnspython net h domain timeout =
     (case dns_mx net h domain timeout of
        Inr answers \<Rightarrow> map rstrip_dot answers
      | Inl exc \<Rightarrow> [],
      h @ [MXQuery domain timeout])"

definition guess_mx_host_from_domain :: "string \<Rightarrow> string list" where
  "guess_mx_host_from_domain domain = [''mail.'' @ domain, ''mx.'' @ domain, domain]"

text \<open>
  The classes of the first handler of \<open>_probe_smtp_host\<close>:
  \<open>except (socket.timeout, smtplib.SMTPServerDisconnected, smtplib.SMTPConnectError)\<close>.
\<close>

fun timeout_or_disconnect :: "exn \<Rightarrow> bool" where
  "timeout_or_disconnect (SocketTimeout m) = True"
| "timeout_or_disconnect (SMTPServerDisconnected m) = True"
| "timeout_or_disconnect (SMTPConnectError m) = True"
| "timeout_or_disconnect exc = False"

definition probe_smtp_host ::
  "network \<Rightarrow> net_call list \<Rightarrow> string \<Rightarrow> int \<Rightarrow> (exn + result) \<times> net_call list" where
  "probe_smtp_host net h host timeout =
     (case smtp_noop net h host timeout of
        Inr code \<Rightarrow>
          if 200 \<le> code \<and> code < 400
          then Inr \<lparr>status = ''ok'',
                    message = ''SMTP server '' @ host @ '' responded with code '' @ str_int code @ ''.''\<rparr>
          else Inr \<lparr>status = ''unreachable'',
                    message = ''SMTP server '' @ host @ '' responded with code '' @ str_int code @ ''.''\<rparr>
      | Inl exc \<Rightarrow>
          if timeout_or_disconnect exc
          then Inr \<lparr>status = ''unreachable'',
                    message = ''SMTP server '' @ host @ '' is unreachable or disconnected.''\<rparr>
          else Inr \<lparr>status = ''unknown'',
                    message = ''Unexpected SMTP error while connecting to '' @ host @ '': '' @ str_exc exc\<rparr>,
      h @ [SMTPConnect host timeout])"

text \<open>The \<open>for host in hosts\<close> loop of \<open>check_smtp_server\<close>.\<close>

fun probe_hosts ::
  "network \<Rightarrow> net_call list \<Rightarrow> string \<Rightarrow> string list \<Rightarrow> int \<Rightarrow> (exn + result) \<times> net_call list" where
  "probe_hosts net h domain [] timeout =
     (Inr \<lparr>status = ''unknown'',
           message = ''Unable to determine SMTP status for domain '' @ domain @ ''.''\<rparr>, h)"
| "probe_hosts net h domain (host # hosts) timeout =
     (case probe_smtp_host net h host timeout of
        (Inl exc, h') \<Rightarrow> (Inl exc, h')
      | (Inr res, h') \<Rightarrow>
          if status res \<in> set [''ok'', ''unreachable''] then (Inr res, h')
          else probe_hosts net h' domain hosts timeout)"

definition check_smtp_server ::
  "network \<Rightarrow> net_call list \<Rightarrow> string \<Rightarrow> int \<Rightarrow> (exn + result) \<times> net_call list" where
  "check_smtp_server net h domain0 timeout =
     (let domain = lower (strip domain0) in
      if domain = []
      then (Inr \<lparr>status = ''unknown'',
                 message = ''Domain is empty; cannot perform SMTP check.''\<rparr>, h)
      else
        (case get_mx_hosts_via_dnspython net h domain timeout of
           (hosts, h1) \<Rightarrow>
             probe_hosts net h1 domain
               (if hosts = [] then guess_mx_host_from_domain domain else hosts) timeout))"

section \<open>domain\_lookup.py\<close>

text \<open>
  The dictionary of \<open>lookup_domain\<close>: the keys of a probe result and two more. The key
  \<open>"method"\<close> is the field \<open>method_used\<close>.
\<close>

record lookup_result = result +
  mx_records :: "string list"
  method_used :: string

definition resolve_with_dnspython ::
  "network \<Rightarrow> net_call list \<Rightarrow> string \<Rightarrow> int \<Rightarrow> (exn + lookup_result) \<times> net_call list" where
  "resolve_with_dnspython net h domain timeout =
     (case dns_mx net h domain timeout of
        Inr answers \<Rightarrow>
          (let mx = map rstrip_dot answers
           in Inr \<lparr>status = (if mx \<noteq> [] then ''ok'' else ''invalid''),
                    message = (if mx \<noteq> [] then ''MX records found.'' else ''No MX records found.''),
                    mx_records = mx,
                    method_used = ''dnspython''\<rparr>)
      | Inl exc \<Rightarrow>
          (case exc of
             ImportError m \<Rightarrow> Inl exc
           | _ \<Rightarrow>
               Inr \<lparr>status = ''invalid'',
                    message = ''MX lookup failed: '' @ str_exc exc,
                    mx_records = [],
                    method_used = ''dnspython''\<rparr>),
      h @ [MXQuery domain timeout])"

definition resolve_with_socket ::
  "network \<Rightarrow> net_call list \<Rightarrow> string \<Rightarrow> int \<Rightarrow> (exn + lookup_result) \<times> net_call list" where
  "resolve_with_socket net h domain timeout =
     (case getaddrinfo net h domain timeout of
        Inr u \<Rightarrow>
          Inr \<lparr>status = ''ok'',
               message = ''Domain resolves via A/AAAA records.'',
               mx_records = [],
               method_used = ''socket''\<rparr>
      | Inl exc \<Rightarrow>
          (case exc of
             Gaierror m \<Rightarrow>
               Inr \<lparr>status = ''invalid'',
                    message = ''Domain does not resolve: '' @ str_exc exc,
                    mx_records = [],
                    method_used = ''socket''\<rparr>
           | _ \<Rightarrow>
               Inr \<lparr>status = ''invalid'',
                    message = ''Unexpected DNS error: '' @ str_exc exc,
                    mx_records = [],
                    method_used = ''socket''\<rparr>),
      h @ [GetAddrInfo domain timeout])"

definition lookup_domain ::
  "network \<Rightarrow> net_call list \<Rightarrow> string \<Rightarrow> int \<Rightarrow> (exn + lookup_result) \<times> net_call list" where
  "lookup_domain net h domain0 timeout =
     (let domain = lower (strip domain0) in
      if domain = []
      then (Inr \<lparr>status = ''invalid'',
                 message = ''Domain name is empty.'',
                 mx_records = [],
                 method_used = ''none''\<rparr>, h)
      else
        (case resolve_with_dnspython net h domain timeout of
           (Inr res, h1) \<Rightarrow> (Inr res, h1)
         | (Inl exc, h1) \<Rightarrow>
             (case exc of
                ImportError m \<Rightarrow> resolve_with_socket net h1 domain timeout
              | _ \<Rightarrow> (Inl exc, h1))))"

section \<open>main.py\<close>

text \<open>
  The verdict of one address is the dictionary \<open>validator.validate\<close> returns, or the one
  \<open>main\<close> builds in its handler: keys and values in insertion order. \<open>EmailValidator\<close>
  is outside the files at hand, so \<open>validate\<close> is a parameter of the loop: it takes the
  state of the world and the address, and returns a verdict or raises, with the new state.
\<close>

type_synonym verdict = "(string \<times> string) list"

fun main_loop ::
  "('w \<Rightarrow> string \<Rightarrow> (exn + verdict) \<times> 'w) \<Rightarrow> 'w \<Rightarrow> string list \<Rightarrow> verdict list
     \<Rightarrow> verdict list \<times> 'w" where
  "main_loop validate w [] results = (results, w)"
| "main_loop validate w (email # emails) results =
     (case validate w email of
        (Inr res, w') \<Rightarrow> main_loop validate w' emails (results @ [res])
      | (Inl exc, w') \<Rightarrow>
          main_loop validate w' emails
            (results @
             [[(''email'', email),
               (''email_status'', ''unknown''),
               (''message'', ''Internal error during validation: '' @ str_exc exc),
               (''format'', ''unknown''),
               (''mailbox_status'', ''unknown''),
               (''mailbox_type'', ''unknown''),
               (''domain'', [])]]))"

section \<open>Notions the statements use\<close>

text \<open>
  The candidate hosts of \<open>check_smtp_server\<close> for a normalised domain: the MX hosts, or
  the three guesses when there are none (the two lines before the loop).
\<close>

definition candidate_hosts :: "network \<Rightarrow> net_call list \<Rightarrow> string \<Rightarrow> int \<Rightarrow> string list" where
  "candidate_hosts net h domain timeout =
     (let hosts = fst (get_mx_hosts_via_dnspython net h domain timeout)
      in if hosts = [] then guess_mx_host_from_domain domain else hosts)"

text \<open>
  What probing candidate number \<open>k\<close> (from 0) returns when the candidates before it have
  been probed, \<open>h\<close> being the calls made before the loop.
\<close>

definition probe_at :: "network \<Rightarrow> net_call list \<Rightarrow> string list \<Rightarrow> int \<Rightarrow> nat \<Rightarrow> exn + result" where
  "probe_at net h hosts timeout k =
     fst (probe_smtp_host net (h @ map (\<lambda>x. SMTPConnect x timeout) (take k hosts)) (hosts ! k) timeout)"

definition status_is :: "string \<Rightarrow> exn + result \<Rightarrow> bool" where
  "status_is s x = (case x of Inr r \<Rightarrow> status r = s | Inl exc \<Rightarrow> False)"

definition conclusive :: "exn + result \<Rightarrow> bool" where
  "conclusive x = (status_is ''ok'' x \<or> status_is ''unreachable'' x)"

text \<open>
  The state of the world once \<open>validate\<close> has been called on each address of a list, in
  order, whatever each call returned or raised.
\<close>

fun world_after :: "('w \<Rightarrow> string \<Rightarrow> (exn + verdict) \<times> 'w) \<Rightarrow> 'w \<Rightarrow> string list \<Rightarrow> 'w" where
  "world_after validate w [] = w"
| "world_after validate w (email # emails) = world_after validate (snd (validate w email)) emails"

text \<open>The verdict the handler of \<open>main\<close> records for an address whose validation raised.\<close>

definition internal_error_verdict :: "string \<Rightarrow> exn \<Rightarrow> verdict" where
  "internal_error_verdict email exc =
     [(''email'', email),
      (''email_status'', ''unknown''),
      (''message'', ''Internal error during validation: '' @ str_exc exc),
      (''format'', ''unknown''),
      (''mailbox_status'', ''unknown''),
      (''mailbox_type'', ''unknown''),
      (''domain'', [])]"

section \<open>An example network\<close>

text \<open>
  A network to run the program on: \<open>example.com\<close> has two MX hosts, the first of which
  fails in an unforeseen way; \<open>nomx.example\<close> has none; every other domain does not
  exist.
\<close>

definition demo_net :: network where
  "demo_net =
     \<lparr>dns_mx = (\<lambda>h d t.
        if d = ''example.com'' then Inr [''mx1.example.com.'', ''mx2.example.com.'']
        else if d = ''nomx.example'' then Inr []
        else Inl (OtherException ''The DNS query name does not exist.'')),
      getaddrinfo = (\<lambda>h d t.
        if d = ''example.com'' then Inr ()
        else Inl (Gaierror ''Name or service not known'')),
      smtp_noop = (\<lambda>h host t.
        if host = ''mx1.example.com'' then Inl (OtherException ''boom'')
        else if host = ''mx2.example.com'' then Inr 250
        else if host = ''mx.nomx.example'' then Inr 421
        else if host = ''mail.nomx.example'' then Inl (Gaierror ''Name or service not known'')
        else if host = ''mail.slow.example'' then Inl (SocketTimeout ''timed out'')
        else Inl (OtherException ''boom''))\<rparr>"

text \<open>A machine without dnspython: the import fails for every domain.\<close>

definition legacy_net :: network where
  "legacy_net =
     \<lparr>dns_mx = (\<lambda>h d t. Inl (ImportError ''No module named dns'')),
      getaddrinfo = (\<lambda>h d t.
        if d = ''example.com'' then Inr ()
        else if d = ''odd.example'' then Inl (OtherException ''label empty or too long'')
        else Inl (Gaierror ''Name or service not known'')),
      smtp_noop = (\<lambda>h host t. Inl (SocketTimeout ''timed out''))\<rparr>"

text \<open>
  A validator to run the loop on: the world counts the calls, and validating
  \<open>boom@example.com\<close> raises.
\<close>

definition demo_validate :: "nat \<Rightarrow> string \<Rightarrow> (exn + verdict) \<times> nat" where
  "demo_validate w email =
     (if email = ''boom@example.com'' then Inl (OtherException ''kaboom'')
      else Inr [(''email'', email), (''email_status'', ''valid'')],
      Suc w)"

text \<open>
  A domain without MX records whose hosts all refuse the connection on port 25.
\<close>

definition closed_net :: network where
  "closed_net =
     \<lparr>dns_mx = (\<lambda>h d t.
        Inl (OtherException ''The DNS response does not contain an answer to the question'')),
      getaddrinfo = (\<lambda>h d t. Inr ()),
      smtp_noop = (\<lambda>h host t. Inl (ConnectionRefusedError ''[Errno 111] Connection refused''))\<rparr>"

section \<open>Trimming and lower-casing\<close>

lemma of_char_char_of_small: "n < 256 \<Longrightarrow> of_char (char_of (n::nat)) = n"
  by simp

lemma is_space_lower_char: "is_space (lower_char c) = is_space c"
proof -
  define n where "n = (of_char c :: nat)"
  show ?thesis
  proof (cases "(65 \<le> n \<and> n \<le> 90) \<or> (192 \<le> n \<and> n \<le> 222 \<and> n \<noteq> 215)")
    case True
    then have lt: "n + 32 < 256" by auto
    have lc: "lower_char c = char_of (n + 32)"
      using True by (simp add: lower_char_def Let_def n_def)
    have "(of_char (lower_char c) :: nat) = n + 32"
      unfolding lc using lt by (rule of_char_char_of_small)
    then show ?thesis
      using True by (auto simp: is_space_def n_def [symmetric])
  next
    case False
    then have "lower_char c = c"
      by (auto simp: lower_char_def Let_def n_def)
    then show ?thesis by simp
  qed
qed

lemma lower_char_idem: "lower_char (lower_char c) = lower_char c"
proof -
  define n where "n = (of_char c :: nat)"
  show ?thesis
  proof (cases "(65 \<le> n \<and> n \<le> 90) \<or> (192 \<le> n \<and> n \<le> 222 \<and> n \<noteq> 215)")
    case True
    then have lt: "n + 32 < 256" by auto
    have lc: "lower_char c = char_of (n + 32)"
      using True by (simp add: lower_char_def Let_def n_def)
    have oc: "(of_char (lower_char c) :: nat) = n + 32"
      unfolding lc using lt by (rule of_char_char_of_small)
    have neg: "\<not> ((65 \<le> n + 32 \<and> n + 32 \<le> 90) \<or> (192 \<le> n + 32 \<and> n + 32 \<le> 222 \<and> n + 32 \<noteq> 215))"
      using True by auto
    show ?thesis
      unfolding lower_char_def [of "lower_char c"] Let_def oc using neg by (simp only: if_False)
  next
    case False
    then have "lower_char c = c"
      by (auto simp: lower_char_def Let_def n_def)
    then show ?thesis by simp
  qed
qed

lemma strip_lower: "strip (lower s) = lower (strip s)"
  by (simp add: strip_def lower_def dropWhile_map rev_map comp_def is_space_lower_char)

lemma rev_dropWhile_rev_prefix:
  "\<exists>zs. xs = rev (dropWhile P (rev xs)) @ zs"
  by (metis rev_append rev_rev_ident takeWhile_dropWhile_id)

lemma hd_rev_dropWhile_rev:
  "rev (dropWhile P (rev xs)) \<noteq> [] \<Longrightarrow> hd (rev (dropWhile P (rev xs))) = hd xs"
  by (metis hd_append2 rev_dropWhile_rev_prefix)

lemma dropWhile_strip_shape:
  "dropWhile P (rev (dropWhile P (rev (dropWhile P s)))) = rev (dropWhile P (rev (dropWhile P s)))"
proof (cases "rev (dropWhile P (rev (dropWhile P s))) = []")
  case True
  show ?thesis unfolding True by simp
next
  case False
  then have ne: "dropWhile P s \<noteq> []"
    by (metis dropWhile.simps(1) rev.simps(1))
  have "hd (rev (dropWhile P (rev (dropWhile P s)))) = hd (dropWhile P s)"
    using False by (rule hd_rev_dropWhile_rev)
  moreover have "\<not> P (hd (dropWhile P s))"
    using ne by (rule hd_dropWhile)
  ultimately show ?thesis
    using False by (simp add: dropWhile_eq_self_iff)
qed

lemma strip_idem: "strip (strip s) = strip s"
  by (simp add: strip_def dropWhile_strip_shape)


lemma lower_idem: "lower (lower s) = lower s"
  by (simp add: lower_def lower_char_idem)

lemma normalise_idem: "lower (strip (lower (strip s))) = lower (strip s)"
  by (simp add: strip_lower strip_idem lower_idem)

section \<open>The SMTP prober\<close>

text \<open>
  What the code does with each outcome of the SMTP session: a reply code from 200 to 399
  gives status \<open>ok\<close>; any other reply code gives \<open>unreachable\<close>; the three classes of the
  first handler (\<open>socket.timeout\<close>, \<open>SMTPServerDisconnected\<close>, \<open>SMTPConnectError\<close>) give
  \<open>unreachable\<close>; every other exception, a refused connection among them, gives
  \<open>unknown\<close>.
\<close>

theorem probe_smtp_host_classification:
  "(smtp_noop net h host t = Inr code \<longrightarrow> 200 \<le> code \<and> code < 400 \<longrightarrow>
      (\<exists>msg. fst (probe_smtp_host net h host t) = Inr \<lparr>status = ''ok'', message = msg\<rparr>))
   \<and> (smtp_noop net h host t = Inr code \<longrightarrow> \<not> (200 \<le> code \<and> code < 400) \<longrightarrow>
      (\<exists>msg. fst (probe_smtp_host net h host t) = Inr \<lparr>status = ''unreachable'', message = msg\<rparr>))
   \<and> (smtp_noop net h host t \<in>
          {Inl (SocketTimeout m), Inl (SMTPServerDisconnected m), Inl (SMTPConnectError m)} \<longrightarrow>
      (\<exists>msg. fst (probe_smtp_host net h host t) = Inr \<lparr>status = ''unreachable'', message = msg\<rparr>))
   \<and> (smtp_noop net h host t \<in>
          {Inl (ImportError m), Inl (Gaierror m), Inl (ConnectionRefusedError m),
           Inl (OtherException m)} \<longrightarrow>
      (\<exists>msg. fst (probe_smtp_host net h host t) = Inr \<lparr>status = ''unknown'', message = msg\<rparr>))"
  by (auto simp: probe_smtp_host_def)

theorem probe_smtp_host_classification_witness:
  "(\<exists>msg. fst (probe_smtp_host demo_net [] ''mx2.example.com'' 8) = Inr \<lparr>status = ''ok'', message = msg\<rparr>)
   \<and> (\<exists>msg. fst (probe_smtp_host demo_net [] ''mx.nomx.example'' 8) = Inr \<lparr>status = ''unreachable'', message = msg\<rparr>)
   \<and> (\<exists>msg. fst (probe_smtp_host demo_net [] ''mail.slow.example'' 8) = Inr \<lparr>status = ''unreachable'', message = msg\<rparr>)
   \<and> (\<exists>msg. fst (probe_smtp_host demo_net [] ''mx1.example.com'' 8) = Inr \<lparr>status = ''unknown'', message = msg\<rparr>)"
proof -
  have a: "smtp_noop demo_net [] ''mx2.example.com'' 8 = Inr 250"
    and b: "smtp_noop demo_net [] ''mx.nomx.example'' 8 = Inr 421"
    and c: "smtp_noop demo_net [] ''mail.slow.example'' 8 = Inl (SocketTimeout ''timed out'')"
    and d: "smtp_noop demo_net [] ''mx1.example.com'' 8 = Inl (OtherException ''boom'')"
    by (simp_all add: demo_net_def)
  show ?thesis
    using probe_smtp_host_classification [of demo_net "[]" "''mx2.example.com''" 8 250]
      probe_smtp_host_classification [of demo_net "[]" "''mx.nomx.example''" 8 421]
      probe_smtp_host_classification [of demo_net "[]" "''mail.slow.example''" 8 0 "''timed out''"]
      probe_smtp_host_classification [of demo_net "[]" "''mx1.example.com''" 8 0 "''boom''"]
    by (simp add: a b c d)
qed

text \<open>
  C1. A connection-refused condition is to give status \<open>unreachable\<close>. It does not: when
  the host refuses the connection on port 25, the session raises
  \<open>ConnectionRefusedError\<close>, which the first handler does not name, and the probe answers
  \<open>unknown\<close> through the last handler.
\<close>

theorem probe_smtp_host_refused_connection:
  "smtp_noop closed_net [] ''mail.closed.example'' 8 =
     Inl (ConnectionRefusedError ''[Errno 111] Connection refused'')
   \<and> fst (probe_smtp_host closed_net [] ''mail.closed.example'' 8) =
     Inr \<lparr>status = ''unknown'',
          message = ''Unexpected SMTP error while connecting to mail.closed.example: [Errno 111] Connection refused''\<rparr>"
  by (simp add: closed_net_def probe_smtp_host_def)

subsection \<open>The loop over the candidate hosts\<close>

lemma probe_smtp_host_returns:
  "\<exists>r. probe_smtp_host net h host t = (Inr r, h @ [SMTPConnect host t])
       \<and> status r \<in> {''ok'', ''unreachable'', ''unknown''}"
  by (simp add: probe_smtp_host_def split: sum.split)

lemma probe_at_Cons_0: "probe_at net h (x # xs) t 0 = fst (probe_smtp_host net h x t)"
  by (simp add: probe_at_def)

lemma probe_at_Cons_Suc:
  "probe_at net h (x # xs) t (Suc j) = probe_at net (h @ [SMTPConnect x t]) xs t j"
  by (simp add: probe_at_def)

lemma probe_hosts_Cons:
  "probe_hosts net h dm (x # xs) t =
     (if conclusive (fst (probe_smtp_host net h x t))
      then (fst (probe_smtp_host net h x t), h @ [SMTPConnect x t])
      else probe_hosts net (h @ [SMTPConnect x t]) dm xs t)"
proof -
  obtain r where r: "probe_smtp_host net h x t = (Inr r, h @ [SMTPConnect x t])"
    using probe_smtp_host_returns by blast
  show ?thesis
    by (simp add: r conclusive_def status_is_def)
qed

lemma probe_hosts_first:
  "k < length hosts \<Longrightarrow> \<forall>j<k. \<not> conclusive (probe_at net h hosts t j) \<Longrightarrow>
   conclusive (probe_at net h hosts t k) \<Longrightarrow>
   probe_hosts net h dm hosts t =
     (probe_at net h hosts t k, h @ map (\<lambda>x. SMTPConnect x t) (take (Suc k) hosts))"
proof (induction hosts arbitrary: h k)
  case Nil
  then show ?case by simp
next
  case (Cons x xs)
  show ?case
  proof (cases k)
    case 0
    with Cons.prems(3) show ?thesis
      by (simp add: probe_hosts_Cons probe_at_Cons_0 del: probe_hosts.simps)
  next
    case (Suc k')
    have first: "\<not> conclusive (fst (probe_smtp_host net h x t))"
      using Cons.prems(2) Suc probe_at_Cons_0 [of net h x xs t] by auto
    have rest: "\<forall>j<k'. \<not> conclusive (probe_at net (h @ [SMTPConnect x t]) xs t j)"
      using Cons.prems(2) Suc probe_at_Cons_Suc [of net h x xs t] by auto
    have last: "conclusive (probe_at net (h @ [SMTPConnect x t]) xs t k')"
      using Cons.prems(3) Suc by (simp add: probe_at_Cons_Suc)
    have len: "k' < length xs"
      using Cons.prems(1) Suc by simp
    show ?thesis
      using Cons.IH [OF len rest last] first Suc
      by (simp add: probe_hosts_Cons probe_at_Cons_Suc del: probe_hosts.simps)
  qed
qed

lemma probe_hosts_none:
  "\<forall>j<length hosts. \<not> conclusive (probe_at net h hosts t j) \<Longrightarrow>
   probe_hosts net h dm hosts t =
     (Inr \<lparr>status = ''unknown'',
           message = ''Unable to determine SMTP status for domain '' @ dm @ ''.''\<rparr>,
      h @ map (\<lambda>x. SMTPConnect x t) hosts)"
proof (induction hosts arbitrary: h)
  case Nil
  then show ?case by simp
next
  case (Cons x xs)
  have first: "\<not> conclusive (fst (probe_smtp_host net h x t))"
    using Cons.prems probe_at_Cons_0 [of net h x xs t] by auto
  have rest: "\<forall>j<length xs. \<not> conclusive (probe_at net (h @ [SMTPConnect x t]) xs t j)"
    using Cons.prems probe_at_Cons_Suc [of net h x xs t] by auto
  show ?case
    using Cons.IH [OF rest] first
    by (simp add: probe_hosts_Cons del: probe_hosts.simps)
qed

lemma probe_hosts_returns: "\<exists>r. fst (probe_hosts net h dm hosts t) = Inr r"
proof (induction hosts arbitrary: h)
  case Nil
  then show ?case by simp
next
  case (Cons x xs)
  obtain r where r: "probe_smtp_host net h x t = (Inr r, h @ [SMTPConnect x t])"
    using probe_smtp_host_returns by blast
  show ?case
    using Cons.IH [of "h @ [SMTPConnect x t]"] by (simp add: r)
qed

lemma check_smtp_server_loop:
  "lower (strip d) \<noteq> [] \<Longrightarrow>
   check_smtp_server net h d t =
     probe_hosts net (h @ [MXQuery (lower (strip d)) t]) (lower (strip d))
       (candidate_hosts net h (lower (strip d)) t) t"
  by (simp add: check_smtp_server_def candidate_hosts_def get_mx_hosts_via_dnspython_def Let_def)

lemma not_conclusive_unknown:
  "status_is ''unknown'' x \<Longrightarrow> \<not> conclusive x"
  by (auto simp: conclusive_def status_is_def split: sum.splits)

lemma demo_example_com: "lower (strip ''  Example.COM '') = ''example.com''"
  by code_simp

lemma demo_candidates_example_com:
  "candidate_hosts demo_net [] ''example.com'' 8 = [''mx1.example.com'', ''mx2.example.com'']"
  by code_simp

lemma demo_candidates_ghost:
  "candidate_hosts demo_net [] ''ghost.example'' 8 =
     [''mail.ghost.example'', ''mx.ghost.example'', ''ghost.example'']"
  by code_simp

lemma demo_ghost: "lower (strip ''ghost.example'') = ''ghost.example''"
  by code_simp

text \<open>
  C2. \<open>check_smtp_server\<close> returns a result on every input: no exception escapes. For a
  domain that is not empty once normalised, it probes the candidate hosts in order: when
  candidate \<open>k\<close> is the first whose probe is conclusive (status \<open>ok\<close> or \<open>unreachable\<close>),
  the result is that probe's result and the SMTP sessions opened are those of the
  candidates up to \<open>k\<close>, none after it; when every candidate's probe has status
  \<open>unknown\<close>, the result is \<open>unknown\<close> with a message naming the domain, every candidate
  having been probed once.
\<close>

theorem check_smtp_server_first_conclusive:
  assumes "dm = lower (strip d)"
    and "hosts = candidate_hosts net h dm t"
    and "h1 = h @ [MXQuery dm t]"
  shows "(\<exists>r. fst (check_smtp_server net h d t) = Inr r) \<and>
    (dm \<noteq> [] \<longrightarrow>
       (\<forall>k<length hosts.
          (\<forall>j<k. \<not> conclusive (probe_at net h1 hosts t j)) \<and>
          conclusive (probe_at net h1 hosts t k) \<longrightarrow>
          check_smtp_server net h d t =
            (probe_at net h1 hosts t k, h1 @ map (\<lambda>x. SMTPConnect x t) (take (Suc k) hosts))) \<and>
       ((\<forall>j<length hosts. status_is ''unknown'' (probe_at net h1 hosts t j)) \<longrightarrow>
          check_smtp_server net h d t =
            (Inr \<lparr>status = ''unknown'',
                  message = ''Unable to determine SMTP status for domain '' @ dm @ ''.''\<rparr>,
             h1 @ map (\<lambda>x. SMTPConnect x t) hosts)))"
proof (cases "dm = []")
  case True
  then show ?thesis
    using assms(1) by (simp add: check_smtp_server_def)
next
  case False
  then have ne: "lower (strip d) \<noteq> []"
    using assms(1) by simp
  have loop: "check_smtp_server net h d t = probe_hosts net h1 dm hosts t"
    using check_smtp_server_loop [OF ne, of net h t] assms by simp
  have returns: "\<exists>r. fst (check_smtp_server net h d t) = Inr r"
    unfolding loop by (rule probe_hosts_returns)
  have first: "check_smtp_server net h d t =
      (probe_at net h1 hosts t k, h1 @ map (\<lambda>x. SMTPConnect x t) (take (Suc k) hosts))"
    if "k < length hosts" and "\<forall>j<k. \<not> conclusive (probe_at net h1 hosts t j)"
      and "conclusive (probe_at net h1 hosts t k)" for k
    unfolding loop using that by (rule probe_hosts_first)
  have none: "check_smtp_server net h d t =
      (Inr \<lparr>status = ''unknown'',
            message = ''Unable to determine SMTP status for domain '' @ dm @ ''.''\<rparr>,
       h1 @ map (\<lambda>x. SMTPConnect x t) hosts)"
    if "\<forall>j<length hosts. status_is ''unknown'' (probe_at net h1 hosts t j)"
  proof -
    from that have "\<forall>j<length hosts. \<not> conclusive (probe_at net h1 hosts t j)"
      using not_conclusive_unknown by blast
    then show ?thesis
      unfolding loop by (rule probe_hosts_none)
  qed
  show ?thesis
    using returns first none by blast
qed

theorem check_smtp_server_first_conclusive_witness:
  "check_smtp_server demo_net [] ''  Example.COM '' 8 =
     (Inr \<lparr>status = ''ok'', message = ''SMTP server mx2.example.com responded with code 250.''\<rparr>,
      [MXQuery ''example.com'' 8, SMTPConnect ''mx1.example.com'' 8,
       SMTPConnect ''mx2.example.com'' 8])
   \<and> check_smtp_server demo_net [] ''ghost.example'' 8 =
     (Inr \<lparr>status = ''unknown'',
           message = ''Unable to determine SMTP status for domain ghost.example.''\<rparr>,
      [MXQuery ''ghost.example'' 8, SMTPConnect ''mail.ghost.example'' 8,
       SMTPConnect ''mx.ghost.example'' 8, SMTPConnect ''ghost.example'' 8])"
proof -
  let ?hosts = "[''mx1.example.com'', ''mx2.example.com'']"
  let ?guesses = "[''mail.ghost.example'', ''mx.ghost.example'', ''ghost.example'']"
  have p0: "\<not> conclusive (probe_at demo_net [MXQuery ''example.com'' 8] ?hosts 8 0)"
    by code_simp
  have p1: "probe_at demo_net [MXQuery ''example.com'' 8] ?hosts 8 1 =
      Inr \<lparr>status = ''ok'', message = ''SMTP server mx2.example.com responded with code 250.''\<rparr>"
    by code_simp
  have c1: "conclusive (probe_at demo_net [MXQuery ''example.com'' 8] ?hosts 8 1)"
    by code_simp
  have ne1: "''example.com'' \<noteq> []"
    by simp
  have step: "check_smtp_server demo_net [] ''  Example.COM '' 8 =
      (probe_at demo_net [MXQuery ''example.com'' 8] ?hosts 8 k,
       [MXQuery ''example.com'' 8] @ map (\<lambda>x. SMTPConnect x 8) (take (Suc k) ?hosts))"
    if "k < length ?hosts"
      and "\<forall>j<k. \<not> conclusive (probe_at demo_net [MXQuery ''example.com'' 8] ?hosts 8 j)"
      and "conclusive (probe_at demo_net [MXQuery ''example.com'' 8] ?hosts 8 k)" for k
    using check_smtp_server_first_conclusive [OF refl refl refl, of demo_net "[]" "''  Example.COM ''" 8,
        unfolded demo_example_com demo_candidates_example_com append_Nil] ne1 that
    by blast
  have j0: "\<forall>j<1::nat. \<not> conclusive (probe_at demo_net [MXQuery ''example.com'' 8] ?hosts 8 j)"
    using p0 by simp
  have first: "check_smtp_server demo_net [] ''  Example.COM '' 8 =
      (probe_at demo_net [MXQuery ''example.com'' 8] ?hosts 8 1,
       [MXQuery ''example.com'' 8] @ map (\<lambda>x. SMTPConnect x 8) (take (Suc 1) ?hosts))"
    using j0 c1 by (intro step) simp_all
  have g: "status_is ''unknown'' (probe_at demo_net [MXQuery ''ghost.example'' 8] ?guesses 8 0)"
    "status_is ''unknown'' (probe_at demo_net [MXQuery ''ghost.example'' 8] ?guesses 8 1)"
    "status_is ''unknown'' (probe_at demo_net [MXQuery ''ghost.example'' 8] ?guesses 8 2)"
    by code_simp+
  have all: "\<forall>j<length ?guesses.
      status_is ''unknown'' (probe_at demo_net [MXQuery ''ghost.example'' 8] ?guesses 8 j)"
  proof (intro allI impI)
    fix j assume "j < length ?guesses"
    then have "j = 0 \<or> j = 1 \<or> j = 2" by auto
    then show "status_is ''unknown'' (probe_at demo_net [MXQuery ''ghost.example'' 8] ?guesses 8 j)"
      using g by auto
  qed
  have ne2: "''ghost.example'' \<noteq> []"
    by simp
  have none: "check_smtp_server demo_net [] ''ghost.example'' 8 =
      (Inr \<lparr>status = ''unknown'',
            message = ''Unable to determine SMTP status for domain '' @ ''ghost.example'' @ ''.''\<rparr>,
       [MXQuery ''ghost.example'' 8] @ map (\<lambda>x. SMTPConnect x 8) ?guesses)"
    using check_smtp_server_first_conclusive [OF refl refl refl, of demo_net "[]" "''ghost.example''" 8,
        unfolded demo_ghost demo_candidates_ghost append_Nil] ne2 all
    by blast
  show ?thesis
    using first [unfolded p1] none by simp
qed

lemma probe_status_unknown_iff:
  "status_is ''unknown'' (fst (probe_smtp_host net h x t)) \<longleftrightarrow>
     (\<exists>exc. smtp_noop net h x t = Inl exc \<and> \<not> timeout_or_disconnect exc)"
  by (auto simp: probe_smtp_host_def status_is_def split: sum.splits)

lemma not_conclusive_imp_unknown:
  "\<not> conclusive (fst (probe_smtp_host net h x t)) \<Longrightarrow>
   status_is ''unknown'' (fst (probe_smtp_host net h x t))"
  by (auto simp: probe_smtp_host_def conclusive_def status_is_def split: sum.splits if_splits)

lemma conclusive_not_unknown:
  "conclusive x \<Longrightarrow> \<not> status_is ''unknown'' x"
  by (auto simp: conclusive_def status_is_def split: sum.splits)

lemma probe_hosts_unknown:
  "status_is ''unknown'' (fst (probe_hosts net h dm hosts t)) \<Longrightarrow>
   \<forall>j<length hosts. status_is ''unknown'' (probe_at net h hosts t j)"
proof (induction hosts arbitrary: h)
  case Nil
  then show ?case by simp
next
  case (Cons x xs)
  have nc: "\<not> conclusive (fst (probe_smtp_host net h x t))"
  proof
    assume c: "conclusive (fst (probe_smtp_host net h x t))"
    then have "fst (probe_hosts net h dm (x # xs) t) = fst (probe_smtp_host net h x t)"
      by (simp add: probe_hosts_Cons del: probe_hosts.simps)
    with Cons.prems c show False
      using conclusive_not_unknown by fastforce
  qed
  then have "status_is ''unknown'' (fst (probe_hosts net (h @ [SMTPConnect x t]) dm xs t))"
    using Cons.prems by (simp add: probe_hosts_Cons del: probe_hosts.simps)
  then have tl: "\<forall>j<length xs. status_is ''unknown'' (probe_at net (h @ [SMTPConnect x t]) xs t j)"
    by (rule Cons.IH)
  have hd: "status_is ''unknown'' (probe_at net h (x # xs) t 0)"
    using nc by (simp add: probe_at_Cons_0 not_conclusive_imp_unknown)
  show ?case
  proof (intro allI impI)
    fix j assume "j < length (x # xs)"
    then show "status_is ''unknown'' (probe_at net h (x # xs) t j)"
      using hd tl by (cases j) (simp_all add: probe_at_Cons_Suc)
  qed
qed

lemma probe_hosts_log:
  "\<exists>k\<le>length hosts. (hosts \<noteq> [] \<longrightarrow> 0 < k) \<and>
     snd (probe_hosts net h dm hosts t) = h @ map (\<lambda>x. SMTPConnect x t) (take k hosts) \<and>
     (status_is ''unknown'' (fst (probe_hosts net h dm hosts t)) \<longrightarrow> k = length hosts)"
proof (induction hosts arbitrary: h)
  case Nil
  then show ?case by simp
next
  case (Cons x xs)
  show ?case
  proof (cases "conclusive (fst (probe_smtp_host net h x t))")
    case True
    then have "snd (probe_hosts net h dm (x # xs) t) = h @ map (\<lambda>x. SMTPConnect x t) (take 1 (x # xs))"
      and "\<not> status_is ''unknown'' (fst (probe_hosts net h dm (x # xs) t))"
      by (simp_all add: probe_hosts_Cons conclusive_not_unknown del: probe_hosts.simps)
    then show ?thesis
      by (intro exI [of _ 1]) simp
  next
    case False
    obtain k where k: "k \<le> length xs"
      "snd (probe_hosts net (h @ [SMTPConnect x t]) dm xs t) =
         (h @ [SMTPConnect x t]) @ map (\<lambda>x. SMTPConnect x t) (take k xs)"
      "status_is ''unknown'' (fst (probe_hosts net (h @ [SMTPConnect x t]) dm xs t)) \<longrightarrow> k = length xs"
      using Cons.IH [of "h @ [SMTPConnect x t]"] by blast
    show ?thesis
      using False k
      by (intro exI [of _ "Suc k"]) (simp add: probe_hosts_Cons del: probe_hosts.simps)
  qed
qed

lemma mx_hosts_empty_iff:
  "fst (get_mx_hosts_via_dnspython net h dm t) = [] \<longleftrightarrow>
     dns_mx net h dm t = Inr [] \<or> (\<exists>exc. dns_mx net h dm t = Inl exc)"
  by (simp add: get_mx_hosts_via_dnspython_def split: sum.split)

lemma demo_nomx: "lower (strip ''nomx.example'') = ''nomx.example''"
  by code_simp

text \<open>
  C5. When the domain \<open>d\<close> the function works on (its input trimmed and lower-cased) is
  not empty and the MX lookup gave no host, whether it answered with none or failed, the
  loop runs over \<open>mail.d\<close>, \<open>mx.d\<close>, \<open>d\<close>: after the MX query the
  SMTP sessions opened are those of the first one, two or three of these hosts, in this
  order, and of all three when the result is \<open>unknown\<close>.
\<close>

theorem heuristic_candidates_in_order:
  assumes "dm = lower (strip d)"
    and "dm \<noteq> []"
    and "fst (get_mx_hosts_via_dnspython net h dm t) = []"
  shows "check_smtp_server net h d t =
      probe_hosts net (h @ [MXQuery dm t]) dm [''mail.'' @ dm, ''mx.'' @ dm, dm] t \<and>
    (\<exists>k\<in>{1, 2, 3}.
       snd (check_smtp_server net h d t) =
         h @ MXQuery dm t # map (\<lambda>x. SMTPConnect x t) (take k [''mail.'' @ dm, ''mx.'' @ dm, dm]) \<and>
       (status_is ''unknown'' (fst (check_smtp_server net h d t)) \<longrightarrow> k = 3))"
proof -
  let ?guesses = "[''mail.'' @ dm, ''mx.'' @ dm, dm]"
  have ne: "lower (strip d) \<noteq> []"
    using assms(1,2) by simp
  have cand: "candidate_hosts net h dm t = ?guesses"
    using assms(3) by (simp add: candidate_hosts_def guess_mx_host_from_domain_def)
  have loop: "check_smtp_server net h d t = probe_hosts net (h @ [MXQuery dm t]) dm ?guesses t"
    using check_smtp_server_loop [OF ne, of net h t] assms(1) cand by simp
  obtain k where k: "k \<le> length ?guesses" "?guesses \<noteq> [] \<longrightarrow> 0 < k"
    "snd (probe_hosts net (h @ [MXQuery dm t]) dm ?guesses t) =
       (h @ [MXQuery dm t]) @ map (\<lambda>x. SMTPConnect x t) (take k ?guesses)"
    "status_is ''unknown'' (fst (probe_hosts net (h @ [MXQuery dm t]) dm ?guesses t)) \<longrightarrow>
       k = length ?guesses"
    using probe_hosts_log [of ?guesses net "h @ [MXQuery dm t]" dm t] by blast
  from k(1,2) have "k \<in> {1, 2, 3}"
    by auto
  moreover have "snd (check_smtp_server net h d t) =
      h @ MXQuery dm t # map (\<lambda>x. SMTPConnect x t) (take k ?guesses)"
    using k(3) by (simp add: loop)
  moreover have "status_is ''unknown'' (fst (check_smtp_server net h d t)) \<longrightarrow> k = 3"
    using k(4) by (simp add: loop)
  ultimately show ?thesis
    using loop by blast
qed

theorem heuristic_candidates_in_order_witness:
  "check_smtp_server demo_net [] ''nomx.example'' 8 =
     probe_hosts demo_net [MXQuery ''nomx.example'' 8] ''nomx.example''
       [''mail.nomx.example'', ''mx.nomx.example'', ''nomx.example''] 8
   \<and> snd (check_smtp_server demo_net [] ''nomx.example'' 8) =
     [MXQuery ''nomx.example'' 8, SMTPConnect ''mail.nomx.example'' 8,
      SMTPConnect ''mx.nomx.example'' 8]
   \<and> dns_mx demo_net [] ''ghost.example'' 8 =
     Inl (OtherException ''The DNS query name does not exist.'')
   \<and> snd (check_smtp_server demo_net [] ''ghost.example'' 8) =
     [MXQuery ''ghost.example'' 8, SMTPConnect ''mail.ghost.example'' 8,
      SMTPConnect ''mx.ghost.example'' 8, SMTPConnect ''ghost.example'' 8]"
proof -
  have ne: "''nomx.example'' \<noteq> []" "''ghost.example'' \<noteq> []"
    by simp_all
  have mx: "fst (get_mx_hosts_via_dnspython demo_net [] ''nomx.example'' 8) = []"
    by code_simp
  have loop: "check_smtp_server demo_net [] ''nomx.example'' 8 =
      probe_hosts demo_net [MXQuery ''nomx.example'' 8] ''nomx.example''
        [''mail.nomx.example'', ''mx.nomx.example'', ''nomx.example''] 8"
    using heuristic_candidates_in_order [OF demo_nomx [symmetric] ne(1) mx] by simp
  have log: "snd (probe_hosts demo_net [MXQuery ''nomx.example'' 8] ''nomx.example''
        [''mail.nomx.example'', ''mx.nomx.example'', ''nomx.example''] 8) =
      [MXQuery ''nomx.example'' 8, SMTPConnect ''mail.nomx.example'' 8,
       SMTPConnect ''mx.nomx.example'' 8]"
    by code_simp
  have raised: "dns_mx demo_net [] ''ghost.example'' 8 =
      Inl (OtherException ''The DNS query name does not exist.'')"
    by (simp add: demo_net_def)
  then have swallowed: "fst (get_mx_hosts_via_dnspython demo_net [] ''ghost.example'' 8) = []"
    by (simp add: mx_hosts_empty_iff)
  have loop': "check_smtp_server demo_net [] ''ghost.example'' 8 =
      probe_hosts demo_net [MXQuery ''ghost.example'' 8] ''ghost.example''
        [''mail.ghost.example'', ''mx.ghost.example'', ''ghost.example''] 8"
    using heuristic_candidates_in_order [OF demo_ghost [symmetric] ne(2) swallowed] by simp
  have log': "snd (probe_hosts demo_net [MXQuery ''ghost.example'' 8] ''ghost.example''
        [''mail.ghost.example'', ''mx.ghost.example'', ''ghost.example''] 8) =
      [MXQuery ''ghost.example'' 8, SMTPConnect ''mail.ghost.example'' 8,
       SMTPConnect ''mx.ghost.example'' 8, SMTPConnect ''ghost.example'' 8]"
    by code_simp
  show ?thesis
    using loop log raised loop' log' by simp
qed

text \<open>
  What the code guarantees of a result with status \<open>unknown\<close>: the normalised domain is
  empty, so that there was no candidate, or every candidate was probed and each probe
  raised an exception outside the three classes of the first handler.
\<close>

theorem check_smtp_server_unknown_only_when:
  assumes "fst (check_smtp_server net h d t) = Inr r"
    and "status r = ''unknown''"
    and "dm = lower (strip d)"
    and "hosts = candidate_hosts net h dm t"
    and "h1 = h @ [MXQuery dm t]"
  shows "dm = [] \<or>
    (snd (check_smtp_server net h d t) = h1 @ map (\<lambda>x. SMTPConnect x t) hosts \<and>
     (\<forall>k<length hosts. \<exists>exc.
        smtp_noop net (h1 @ map (\<lambda>x. SMTPConnect x t) (take k hosts)) (hosts ! k) t = Inl exc \<and>
        \<not> timeout_or_disconnect exc))"
proof (cases "dm = []")
  case True
  then show ?thesis by simp
next
  case False
  then have ne: "lower (strip d) \<noteq> []"
    using assms(3) by simp
  have loop: "check_smtp_server net h d t = probe_hosts net h1 dm hosts t"
    using check_smtp_server_loop [OF ne, of net h t] assms(3-5) by simp
  have "status_is ''unknown'' (fst (probe_hosts net h1 dm hosts t))"
    using assms(1,2) by (simp add: loop status_is_def)
  then have unk: "\<forall>j<length hosts. status_is ''unknown'' (probe_at net h1 hosts t j)"
    by (rule probe_hosts_unknown)
  then have "\<forall>j<length hosts. \<not> conclusive (probe_at net h1 hosts t j)"
    using not_conclusive_unknown by blast
  then have log: "snd (check_smtp_server net h d t) = h1 @ map (\<lambda>x. SMTPConnect x t) hosts"
    by (simp add: loop probe_hosts_none)
  have "\<exists>exc. smtp_noop net (h1 @ map (\<lambda>x. SMTPConnect x t) (take k hosts)) (hosts ! k) t = Inl exc \<and>
      \<not> timeout_or_disconnect exc" if "k < length hosts" for k
    using unk that by (simp add: probe_at_def probe_status_unknown_iff)
  with log show ?thesis by blast
qed

theorem check_smtp_server_unknown_only_when_witness:
  "snd (check_smtp_server demo_net [] ''ghost.example'' 8) =
     [MXQuery ''ghost.example'' 8, SMTPConnect ''mail.ghost.example'' 8,
      SMTPConnect ''mx.ghost.example'' 8, SMTPConnect ''ghost.example'' 8]
   \<and> (\<exists>exc. smtp_noop demo_net
          [MXQuery ''ghost.example'' 8, SMTPConnect ''mail.ghost.example'' 8]
          ''mx.ghost.example'' 8 = Inl exc \<and> \<not> timeout_or_disconnect exc)"
proof -
  let ?r = "\<lparr>status = ''unknown'',
             message = ''Unable to determine SMTP status for domain ghost.example.''\<rparr>"
  let ?guesses = "[''mail.ghost.example'', ''mx.ghost.example'', ''ghost.example'']"
  have res: "fst (check_smtp_server demo_net [] ''ghost.example'' 8) = Inr ?r"
    by code_simp
  have st: "status ?r = ''unknown''"
    by simp
  have ne: "''ghost.example'' \<noteq> []"
    by simp
  have both: "snd (check_smtp_server demo_net [] ''ghost.example'' 8) =
        [MXQuery ''ghost.example'' 8] @ map (\<lambda>x. SMTPConnect x 8) ?guesses \<and>
      (\<forall>k<length ?guesses. \<exists>exc.
         smtp_noop demo_net
           ([MXQuery ''ghost.example'' 8] @ map (\<lambda>x. SMTPConnect x 8) (take k ?guesses))
           (?guesses ! k) 8 = Inl exc \<and> \<not> timeout_or_disconnect exc)"
    using check_smtp_server_unknown_only_when [OF res st refl refl refl,
        unfolded demo_ghost demo_candidates_ghost append_Nil] ne
    by blast
  then have "\<exists>exc. smtp_noop demo_net
        ([MXQuery ''ghost.example'' 8] @ map (\<lambda>x. SMTPConnect x 8) (take 1 ?guesses))
        (?guesses ! 1) 8 = Inl exc \<and> \<not> timeout_or_disconnect exc"
    by (elim conjE allE [of _ 1] impE) simp_all
  with both show ?thesis
    by simp
qed

text \<open>
  C8. A result is to be \<open>unknown\<close> only when no candidate existed or every probed
  candidate raised an unclassified error. It is \<open>unknown\<close> as well when every candidate
  refuses the connection, a condition the taxonomy of errors counts as unreachable: for
  \<open>closed.example\<close> the three guessed hosts are probed, each session raises
  \<open>ConnectionRefusedError\<close>, and the result is \<open>unknown\<close>.
\<close>

theorem check_smtp_server_all_refused:
  "smtp_noop closed_net [MXQuery ''closed.example'' 8] ''mail.closed.example'' 8 =
     Inl (ConnectionRefusedError ''[Errno 111] Connection refused'')
   \<and> smtp_noop closed_net
       [MXQuery ''closed.example'' 8, SMTPConnect ''mail.closed.example'' 8]
       ''mx.closed.example'' 8 =
     Inl (ConnectionRefusedError ''[Errno 111] Connection refused'')
   \<and> smtp_noop closed_net
       [MXQuery ''closed.example'' 8, SMTPConnect ''mail.closed.example'' 8,
        SMTPConnect ''mx.closed.example'' 8]
       ''closed.example'' 8 =
     Inl (ConnectionRefusedError ''[Errno 111] Connection refused'')
   \<and> check_smtp_server closed_net [] ''closed.example'' 8 =
     (Inr \<lparr>status = ''unknown'',
           message = ''Unable to determine SMTP status for domain closed.example.''\<rparr>,
      [MXQuery ''closed.example'' 8, SMTPConnect ''mail.closed.example'' 8,
       SMTPConnect ''mx.closed.example'' 8, SMTPConnect ''closed.example'' 8])"
proof -
  have refused: "smtp_noop closed_net h host 8 =
      Inl (ConnectionRefusedError ''[Errno 111] Connection refused'')" for h host
    by (simp add: closed_net_def)
  have "check_smtp_server closed_net [] ''closed.example'' 8 =
      (Inr \<lparr>status = ''unknown'',
            message = ''Unable to determine SMTP status for domain closed.example.''\<rparr>,
       [MXQuery ''closed.example'' 8, SMTPConnect ''mail.closed.example'' 8,
        SMTPConnect ''mx.closed.example'' 8, SMTPConnect ''closed.example'' 8])"
    by code_simp
  with refused show ?thesis
    by simp
qed

subsection \<open>The input is normalised first\<close>

text \<open>
  C10. \<open>check_smtp_server\<close> on a domain returns what it returns on the same domain
  trimmed and lower-cased, on the same network after the same calls: the result and the
  calls made are the same.
\<close>

theorem check_smtp_server_normalises:
  "check_smtp_server net h d t = check_smtp_server net h (lower (strip d)) t"
  by (simp add: check_smtp_server_def normalise_idem)

theorem check_smtp_server_normalises_witness:
  "lower (strip ''  A.com '') = ''a.com'' \<and>
   check_smtp_server demo_net [] ''  A.com '' 8 = check_smtp_server demo_net [] ''a.com'' 8"
proof -
  have e: "lower (strip ''  A.com '') = ''a.com''"
    by code_simp
  show ?thesis
    using check_smtp_server_normalises [of demo_net "[]" "''  A.com ''" 8] by (simp add: e)
qed

section \<open>The domain resolver\<close>

text \<open>
  C9. A domain that is empty once its surrounding whitespace is trimmed gets status
  \<open>invalid\<close>, method \<open>none\<close> and no MX hosts from \<open>lookup_domain\<close>, and the list of
  network calls is returned as it was: no call is made.
\<close>

theorem lookup_domain_empty:
  "strip d = [] \<Longrightarrow>
   lookup_domain net h d t =
     (Inr \<lparr>status = ''invalid'', message = ''Domain name is empty.'',
           mx_records = [], method_used = ''none''\<rparr>, h)"
  by (simp add: lookup_domain_def lower_def)

theorem lookup_domain_empty_witness:
  "strip ''  '' = [] \<and>
   lookup_domain demo_net [] ''  '' 5 =
     (Inr \<lparr>status = ''invalid'', message = ''Domain name is empty.'',
           mx_records = [], method_used = ''none''\<rparr>, [])"
proof -
  have e: "strip ''  '' = []"
    by (simp add: strip_def is_space_def)
  show ?thesis
    using e lookup_domain_empty [OF e, of demo_net "[]" 5] by simp
qed

subsection \<open>Stripping the root label's dot\<close>

lemma rstrip_dot_decompose: "\<exists>n. a = rstrip_dot a @ replicate n CHR ''.''"
proof -
  have "rev a = takeWhile (\<lambda>c. c = CHR ''.'') (rev a) @ dropWhile (\<lambda>c. c = CHR ''.'') (rev a)"
    by simp
  then have "a = rstrip_dot a @ rev (takeWhile (\<lambda>c. c = CHR ''.'') (rev a))"
    unfolding rstrip_dot_def by (metis rev_append rev_rev_ident)
  moreover have "replicate (length (rev (takeWhile (\<lambda>c. c = CHR ''.'') (rev a)))) CHR ''.'' =
      rev (takeWhile (\<lambda>c. c = CHR ''.'') (rev a))"
    by (rule replicate_length_same) (auto dest: set_takeWhileD)
  ultimately show ?thesis
    by metis
qed

lemma rstrip_dot_no_trailing_dot: "rstrip_dot a = [] \<or> last (rstrip_dot a) \<noteq> CHR ''.''"
proof (cases "dropWhile (\<lambda>c. c = CHR ''.'') (rev a) = []")
  case True
  then show ?thesis by (simp add: rstrip_dot_def)
next
  case False
  then have "hd (dropWhile (\<lambda>c. c = CHR ''.'') (rev a)) \<noteq> CHR ''.''"
    by (rule hd_dropWhile)
  then show ?thesis
    using False by (simp add: rstrip_dot_def last_rev)
qed

lemma lookup_domain_dnspython_path:
  "lower (strip d) \<noteq> [] \<Longrightarrow>
   lookup_domain net h d t =
     (case resolve_with_dnspython net h (lower (strip d)) t of
        (Inr res, h1) \<Rightarrow> (Inr res, h1)
      | (Inl exc, h1) \<Rightarrow>
          (case exc of
             ImportError m \<Rightarrow> resolve_with_socket net h1 (lower (strip d)) t
           | _ \<Rightarrow> (Inl exc, h1)))"
  by (simp add: lookup_domain_def Let_def)

lemma demo_odd: "lower (strip ''odd.example'') = ''odd.example''"
  by code_simp

lemma demo_plain_example_com: "lower (strip ''example.com'') = ''example.com''"
  by code_simp

lemma demo_rstrip:
  "map rstrip_dot [''mx1.example.com.'', ''mx2.example.com.''] =
     [''mx1.example.com'', ''mx2.example.com'']"
  by code_simp

text \<open>
  C3. On a domain that is not empty once normalised, when the MX query is what answers:
  a query that returns at least one exchange host gives status \<open>ok\<close> and a non-empty list
  of MX hosts, each the exchange name without its trailing dots, in the order of the
  answer; a query that returns no host gives status \<open>invalid\<close> with the message
  \<open>No MX records found.\<close>; a query that raises anything but \<open>ImportError\<close> gives status
  \<open>invalid\<close> with the text of the error and method \<open>dnspython\<close>. In each case the MX
  query is the only call made: there is no fallback.
\<close>

theorem lookup_domain_mx_path:
  assumes "dm = lower (strip d)" and "dm \<noteq> []"
  shows "(\<forall>answers. dns_mx net h dm t = Inr answers \<and> answers \<noteq> [] \<longrightarrow>
        lookup_domain net h d t =
          (Inr \<lparr>status = ''ok'', message = ''MX records found.'',
                mx_records = map rstrip_dot answers, method_used = ''dnspython''\<rparr>,
           h @ [MXQuery dm t]) \<and>
        map rstrip_dot answers \<noteq> [] \<and>
        (\<forall>a\<in>set answers.
           (\<exists>n. a = rstrip_dot a @ replicate n CHR ''.'') \<and>
           (rstrip_dot a = [] \<or> last (rstrip_dot a) \<noteq> CHR ''.'')))
    \<and> (dns_mx net h dm t = Inr [] \<longrightarrow>
        lookup_domain net h d t =
          (Inr \<lparr>status = ''invalid'', message = ''No MX records found.'',
                mx_records = [], method_used = ''dnspython''\<rparr>,
           h @ [MXQuery dm t]))
    \<and> (\<forall>exc. dns_mx net h dm t = Inl exc \<and> (\<forall>m. exc \<noteq> ImportError m) \<longrightarrow>
        lookup_domain net h d t =
          (Inr \<lparr>status = ''invalid'', message = ''MX lookup failed: '' @ str_exc exc,
                mx_records = [], method_used = ''dnspython''\<rparr>,
           h @ [MXQuery dm t]))"
proof -
  have ne: "lower (strip d) \<noteq> []"
    using assms by simp
  note path = lookup_domain_dnspython_path [OF ne, of net h t, folded assms(1)]
  have found: "lookup_domain net h d t =
      (Inr \<lparr>status = ''ok'', message = ''MX records found.'',
            mx_records = map rstrip_dot answers, method_used = ''dnspython''\<rparr>,
       h @ [MXQuery dm t])"
    if "dns_mx net h dm t = Inr answers" and "answers \<noteq> []" for answers
    using that by (simp add: path resolve_with_dnspython_def)
  have shape: "(\<exists>n. a = rstrip_dot a @ replicate n CHR ''.'') \<and>
      (rstrip_dot a = [] \<or> last (rstrip_dot a) \<noteq> CHR ''.'')" for a
    using rstrip_dot_decompose rstrip_dot_no_trailing_dot by blast
  have empty: "lookup_domain net h d t =
      (Inr \<lparr>status = ''invalid'', message = ''No MX records found.'',
            mx_records = [], method_used = ''dnspython''\<rparr>,
       h @ [MXQuery dm t])"
    if "dns_mx net h dm t = Inr []"
    using that by (simp add: path resolve_with_dnspython_def)
  have failed: "lookup_domain net h d t =
      (Inr \<lparr>status = ''invalid'', message = ''MX lookup failed: '' @ str_exc exc,
            mx_records = [], method_used = ''dnspython''\<rparr>,
       h @ [MXQuery dm t])"
    if "dns_mx net h dm t = Inl exc" and "\<forall>m. exc \<noteq> ImportError m" for exc
    using that by (cases exc) (simp_all add: path resolve_with_dnspython_def)
  show ?thesis
    using found shape empty failed by simp
qed

theorem lookup_domain_mx_path_witness:
  "lookup_domain demo_net [] ''  Example.COM '' 5 =
     (Inr \<lparr>status = ''ok'', message = ''MX records found.'',
           mx_records = [''mx1.example.com'', ''mx2.example.com''],
           method_used = ''dnspython''\<rparr>,
      [MXQuery ''example.com'' 5])
   \<and> lookup_domain demo_net [] ''nomx.example'' 5 =
     (Inr \<lparr>status = ''invalid'', message = ''No MX records found.'',
           mx_records = [], method_used = ''dnspython''\<rparr>,
      [MXQuery ''nomx.example'' 5])
   \<and> lookup_domain demo_net [] ''ghost.example'' 5 =
     (Inr \<lparr>status = ''invalid'',
           message = ''MX lookup failed: The DNS query name does not exist.'',
           mx_records = [], method_used = ''dnspython''\<rparr>,
      [MXQuery ''ghost.example'' 5])"
proof -
  have ne: "''example.com'' \<noteq> []" "''nomx.example'' \<noteq> []" "''ghost.example'' \<noteq> []"
    by simp_all
  have a: "dns_mx demo_net [] ''example.com'' 5 = Inr [''mx1.example.com.'', ''mx2.example.com.'']"
    and b: "dns_mx demo_net [] ''nomx.example'' 5 = Inr []"
    and c: "dns_mx demo_net [] ''ghost.example'' 5 =
        Inl (OtherException ''The DNS query name does not exist.'')"
    by (simp_all add: demo_net_def)
  have found: "lookup_domain demo_net [] ''  Example.COM '' 5 =
      (Inr \<lparr>status = ''ok'', message = ''MX records found.'',
            mx_records = map rstrip_dot [''mx1.example.com.'', ''mx2.example.com.''],
            method_used = ''dnspython''\<rparr>,
       [] @ [MXQuery ''example.com'' 5])"
    using lookup_domain_mx_path [OF demo_example_com [symmetric] ne(1), of demo_net "[]" 5]
    by (simp add: a)
  have empty: "lookup_domain demo_net [] ''nomx.example'' 5 =
      (Inr \<lparr>status = ''invalid'', message = ''No MX records found.'',
            mx_records = [], method_used = ''dnspython''\<rparr>,
       [] @ [MXQuery ''nomx.example'' 5])"
    using lookup_domain_mx_path [OF demo_nomx [symmetric] ne(2), of demo_net "[]" 5]
    by (simp add: b)
  have failed: "lookup_domain demo_net [] ''ghost.example'' 5 =
      (Inr \<lparr>status = ''invalid'',
            message = ''MX lookup failed: '' @ str_exc (OtherException ''The DNS query name does not exist.''),
            mx_records = [], method_used = ''dnspython''\<rparr>,
       [] @ [MXQuery ''ghost.example'' 5])"
    using lookup_domain_mx_path [OF demo_ghost [symmetric] ne(3), of demo_net "[]" 5]
    by (simp add: c)
  show ?thesis
    using found [unfolded demo_rstrip] empty failed by simp
qed

text \<open>
  C4. When importing dnspython fails, \<open>lookup_domain\<close> falls back to
  \<open>socket.getaddrinfo\<close>: a domain that resolves gives status \<open>ok\<close>, no MX host and method
  \<open>socket\<close>; \<open>socket.gaierror\<close> gives status \<open>invalid\<close> with the text of the error; any
  other exception gives status \<open>invalid\<close> as well, method \<open>socket\<close>; and a result is
  returned in every case, no exception leaving \<open>lookup_domain\<close>.
\<close>

theorem lookup_domain_socket_fallback:
  assumes "dm = lower (strip d)" and "dm \<noteq> []"
    and "dns_mx net h dm t = Inl (ImportError m)"
    and "h1 = h @ [MXQuery dm t]"
  shows "(getaddrinfo net h1 dm t = Inr () \<longrightarrow>
        lookup_domain net h d t =
          (Inr \<lparr>status = ''ok'', message = ''Domain resolves via A/AAAA records.'',
                mx_records = [], method_used = ''socket''\<rparr>,
           h1 @ [GetAddrInfo dm t]))
    \<and> (\<forall>m'. getaddrinfo net h1 dm t = Inl (Gaierror m') \<longrightarrow>
        lookup_domain net h d t =
          (Inr \<lparr>status = ''invalid'', message = ''Domain does not resolve: '' @ m',
                mx_records = [], method_used = ''socket''\<rparr>,
           h1 @ [GetAddrInfo dm t]))
    \<and> (\<forall>exc. getaddrinfo net h1 dm t = Inl exc \<and> (\<forall>m'. exc \<noteq> Gaierror m') \<longrightarrow>
        lookup_domain net h d t =
          (Inr \<lparr>status = ''invalid'', message = ''Unexpected DNS error: '' @ str_exc exc,
                mx_records = [], method_used = ''socket''\<rparr>,
           h1 @ [GetAddrInfo dm t]))
    \<and> (\<exists>r. fst (lookup_domain net h d t) = Inr r)"
proof -
  have ne: "lower (strip d) \<noteq> []"
    using assms by simp
  have path: "lookup_domain net h d t = resolve_with_socket net h1 dm t"
    using lookup_domain_dnspython_path [OF ne, of net h t, folded assms(1)] assms(3,4)
    by (simp add: resolve_with_dnspython_def)
  have ok: "resolve_with_socket net h1 dm t =
      (Inr \<lparr>status = ''ok'', message = ''Domain resolves via A/AAAA records.'',
            mx_records = [], method_used = ''socket''\<rparr>,
       h1 @ [GetAddrInfo dm t])"
    if "getaddrinfo net h1 dm t = Inr ()"
    using that by (simp add: resolve_with_socket_def)
  have gai: "resolve_with_socket net h1 dm t =
      (Inr \<lparr>status = ''invalid'', message = ''Domain does not resolve: '' @ m',
            mx_records = [], method_used = ''socket''\<rparr>,
       h1 @ [GetAddrInfo dm t])"
    if "getaddrinfo net h1 dm t = Inl (Gaierror m')" for m'
    using that by (simp add: resolve_with_socket_def)
  have other: "resolve_with_socket net h1 dm t =
      (Inr \<lparr>status = ''invalid'', message = ''Unexpected DNS error: '' @ str_exc exc,
            mx_records = [], method_used = ''socket''\<rparr>,
       h1 @ [GetAddrInfo dm t])"
    if "getaddrinfo net h1 dm t = Inl exc" and "\<forall>m'. exc \<noteq> Gaierror m'" for exc
    using that by (cases exc) (simp_all add: resolve_with_socket_def)
  have returns: "\<exists>r. fst (resolve_with_socket net h1 dm t) = Inr r"
    by (simp add: resolve_with_socket_def split: sum.split exn.split)
  show ?thesis
    unfolding path using ok gai other returns by simp
qed

theorem lookup_domain_socket_fallback_witness:
  "lookup_domain legacy_net [] ''example.com'' 5 =
     (Inr \<lparr>status = ''ok'', message = ''Domain resolves via A/AAAA records.'',
           mx_records = [], method_used = ''socket''\<rparr>,
      [MXQuery ''example.com'' 5, GetAddrInfo ''example.com'' 5])
   \<and> lookup_domain legacy_net [] ''ghost.example'' 5 =
     (Inr \<lparr>status = ''invalid'',
           message = ''Domain does not resolve: Name or service not known'',
           mx_records = [], method_used = ''socket''\<rparr>,
      [MXQuery ''ghost.example'' 5, GetAddrInfo ''ghost.example'' 5])
   \<and> lookup_domain legacy_net [] ''odd.example'' 5 =
     (Inr \<lparr>status = ''invalid'',
           message = ''Unexpected DNS error: label empty or too long'',
           mx_records = [], method_used = ''socket''\<rparr>,
      [MXQuery ''odd.example'' 5, GetAddrInfo ''odd.example'' 5])"
proof -
  have ne: "''example.com'' \<noteq> []" "''ghost.example'' \<noteq> []" "''odd.example'' \<noteq> []"
    by simp_all
  have imp: "dns_mx legacy_net [] dm 5 = Inl (ImportError ''No module named dns'')" for dm
    by (simp add: legacy_net_def)
  have a: "getaddrinfo legacy_net [MXQuery ''example.com'' 5] ''example.com'' 5 = Inr ()"
    and b: "getaddrinfo legacy_net [MXQuery ''ghost.example'' 5] ''ghost.example'' 5 =
        Inl (Gaierror ''Name or service not known'')"
    and c: "getaddrinfo legacy_net [MXQuery ''odd.example'' 5] ''odd.example'' 5 =
        Inl (OtherException ''label empty or too long'')"
    by (simp_all add: legacy_net_def)
  have ok: "lookup_domain legacy_net [] ''example.com'' 5 =
      (Inr \<lparr>status = ''ok'', message = ''Domain resolves via A/AAAA records.'',
            mx_records = [], method_used = ''socket''\<rparr>,
       [MXQuery ''example.com'' 5, GetAddrInfo ''example.com'' 5])"
    using lookup_domain_socket_fallback [OF demo_plain_example_com [symmetric] ne(1) imp,
        of "[MXQuery ''example.com'' 5]"]
    by (simp add: a)
  have gai: "lookup_domain legacy_net [] ''ghost.example'' 5 =
      (Inr \<lparr>status = ''invalid'',
            message = ''Domain does not resolve: Name or service not known'',
            mx_records = [], method_used = ''socket''\<rparr>,
       [MXQuery ''ghost.example'' 5, GetAddrInfo ''ghost.example'' 5])"
    using lookup_domain_socket_fallback [OF demo_ghost [symmetric] ne(2) imp,
        of "[MXQuery ''ghost.example'' 5]"]
    by (simp add: b)
  have other: "lookup_domain legacy_net [] ''odd.example'' 5 =
      (Inr \<lparr>status = ''invalid'',
            message = ''Unexpected DNS error: label empty or too long'',
            mx_records = [], method_used = ''socket''\<rparr>,
       [MXQuery ''odd.example'' 5, GetAddrInfo ''odd.example'' 5])"
    using lookup_domain_socket_fallback [OF demo_odd [symmetric] ne(3) imp,
        of "[MXQuery ''odd.example'' 5]"]
    by (simp add: c)
  show ?thesis
    using ok gai other by simp
qed

text \<open>
  C7. \<open>lookup_domain\<close> returns a result on every input, and the result obeys the
  invariant of the data model: the method is \<open>none\<close> only when the trimmed domain is
  empty, and the list of MX hosts is empty unless the method is \<open>dnspython\<close> and the
  query found records (the status is then \<open>ok\<close>, and the hosts are those of the answer).
\<close>

theorem lookup_domain_invariant:
  "\<exists>r. fst (lookup_domain net h d t) = Inr r \<and>
     (method_used r = ''none'' \<longrightarrow> strip d = []) \<and>
     (mx_records r \<noteq> [] \<longrightarrow>
        method_used r = ''dnspython'' \<and> status r = ''ok'' \<and>
        (\<exists>answers. dns_mx net h (lower (strip d)) t = Inr answers \<and> answers \<noteq> [] \<and>
           mx_records r = map rstrip_dot answers))"
proof (cases "lower (strip d) = []")
  case True
  then show ?thesis
    by (simp add: lookup_domain_def lower_def)
next
  case False
  show ?thesis
    unfolding lookup_domain_dnspython_path [OF False]
    by (simp add: resolve_with_dnspython_def resolve_with_socket_def
        split: sum.split exn.split)
qed

theorem lookup_domain_invariant_witness:
  "\<exists>r. fst (lookup_domain demo_net [] ''  Example.COM '' 5) = Inr r \<and>
     mx_records r = [''mx1.example.com'', ''mx2.example.com''] \<and>
     method_used r = ''dnspython'' \<and> status r = ''ok''"
proof -
  obtain r where r: "fst (lookup_domain demo_net [] ''  Example.COM '' 5) = Inr r"
    and mx: "mx_records r \<noteq> [] \<longrightarrow>
        method_used r = ''dnspython'' \<and> status r = ''ok'' \<and>
        (\<exists>answers. dns_mx demo_net [] (lower (strip ''  Example.COM '')) 5 = Inr answers \<and>
           answers \<noteq> [] \<and> mx_records r = map rstrip_dot answers)"
    using lookup_domain_invariant [of demo_net "[]" "''  Example.COM ''" 5] by blast
  have "fst (lookup_domain demo_net [] ''  Example.COM '' 5) =
      Inr \<lparr>status = ''ok'', message = ''MX records found.'',
           mx_records = [''mx1.example.com'', ''mx2.example.com''],
           method_used = ''dnspython''\<rparr>"
    by code_simp
  with r have "mx_records r = [''mx1.example.com'', ''mx2.example.com'']"
    by auto
  with r mx show ?thesis
    by auto
qed

section \<open>The batch driver\<close>

lemma main_loop_Cons:
  "main_loop validate w (email # emails) results =
     main_loop validate (snd (validate w email)) emails
       (results @ [case fst (validate w email) of
                     Inr res \<Rightarrow> res
                   | Inl exc \<Rightarrow> internal_error_verdict email exc])"
  by (cases "validate w email")
    (simp add: internal_error_verdict_def split: sum.split)

lemma main_loop_world:
  "snd (main_loop validate w emails results) = world_after validate w emails"
  by (induction emails arbitrary: w results)
    (simp_all add: main_loop_Cons del: main_loop.simps(2))

lemma main_loop_length:
  "length (fst (main_loop validate w emails results)) = length results + length emails"
  by (induction emails arbitrary: w results)
    (simp_all add: main_loop_Cons del: main_loop.simps(2))

lemma main_loop_keeps:
  "i < length results \<Longrightarrow> fst (main_loop validate w emails results) ! i = results ! i"
  by (induction emails arbitrary: w results)
    (simp_all add: main_loop_Cons nth_append del: main_loop.simps(2))

lemma main_loop_nth:
  "i < length emails \<Longrightarrow>
   fst (main_loop validate w emails results) ! (length results + i) =
     (case fst (validate (world_after validate w (take i emails)) (emails ! i)) of
        Inr res \<Rightarrow> res
      | Inl exc \<Rightarrow> internal_error_verdict (emails ! i) exc)"
proof (induction emails arbitrary: w results i)
  case Nil
  then show ?case by simp
next
  case (Cons email emails)
  let ?v = "case fst (validate w email) of
              Inr res \<Rightarrow> res | Inl exc \<Rightarrow> internal_error_verdict email exc"
  show ?case
  proof (cases i)
    case 0
    have "fst (main_loop validate (snd (validate w email)) emails (results @ [?v])) ! length results =
        (results @ [?v]) ! length results"
      by (rule main_loop_keeps) simp
    then show ?thesis
      unfolding 0 by (simp add: main_loop_Cons del: main_loop.simps(2) split: sum.split)
  next
    case (Suc j)
    then have j: "j < length emails"
      using Cons.prems by simp
    show ?thesis
      using Cons.IH [OF j, of "snd (validate w email)" "results @ [?v]"] Suc
      by (simp add: main_loop_Cons del: main_loop.simps(2) split: sum.split)
  qed
qed

text \<open>
  C6. When validating address number \<open>i\<close> of the batch raises, the loop records for it a
  verdict with \<open>email_status\<close>, \<open>format\<close> and \<open>mailbox_status\<close> all \<open>unknown\<close> and a
  message carrying the text of the error, and goes on: there is one verdict for each
  address, every address is validated in its turn, and each address whose validation
  returns gets the verdict returned for it.
\<close>

theorem main_loop_isolates_failures:
  assumes "i < length emails"
    and "fst (validate (world_after validate w (take i emails)) (emails ! i)) = Inl exc"
    and "rs = fst (main_loop validate w emails [])"
  shows "map_of (rs ! i) ''email'' = Some (emails ! i) \<and>
     map_of (rs ! i) ''email_status'' = Some ''unknown'' \<and>
     map_of (rs ! i) ''format'' = Some ''unknown'' \<and>
     map_of (rs ! i) ''mailbox_status'' = Some ''unknown'' \<and>
     map_of (rs ! i) ''message'' = Some (''Internal error during validation: '' @ str_exc exc) \<and>
     length rs = length emails \<and>
     snd (main_loop validate w emails []) = world_after validate w emails \<and>
     (\<forall>j<length emails. \<forall>v.
        fst (validate (world_after validate w (take j emails)) (emails ! j)) = Inr v \<longrightarrow>
        rs ! j = v)"
proof -
  have "rs ! i = internal_error_verdict (emails ! i) exc"
    using main_loop_nth [OF assms(1), of validate w "[]"] assms(2,3) by simp
  then have fields: "map_of (rs ! i) ''email'' = Some (emails ! i)"
    "map_of (rs ! i) ''email_status'' = Some ''unknown''"
    "map_of (rs ! i) ''format'' = Some ''unknown''"
    "map_of (rs ! i) ''mailbox_status'' = Some ''unknown''"
    "map_of (rs ! i) ''message'' = Some (''Internal error during validation: '' @ str_exc exc)"
    by (simp_all add: internal_error_verdict_def)
  have len: "length rs = length emails"
    using main_loop_length [of validate w emails "[]"] assms(3) by simp
  have others: "rs ! j = v"
    if "j < length emails"
      and "fst (validate (world_after validate w (take j emails)) (emails ! j)) = Inr v" for j v
    using main_loop_nth [OF that(1), of validate w "[]"] that(2) assms(3) by simp
  show ?thesis
    using fields len others main_loop_world [of validate w emails "[]"] by blast
qed

theorem main_loop_isolates_failures_witness:
  "fst (main_loop demo_validate 0 [''a@example.com'', ''boom@example.com'', ''b@example.com''] []) ! 1 =
     [(''email'', ''boom@example.com''), (''email_status'', ''unknown''),
      (''message'', ''Internal error during validation: kaboom''),
      (''format'', ''unknown''), (''mailbox_status'', ''unknown''),
      (''mailbox_type'', ''unknown''), (''domain'', [])]
   \<and> map_of (fst (main_loop demo_validate 0
         [''a@example.com'', ''boom@example.com'', ''b@example.com''] []) ! 1) ''email_status'' =
       Some ''unknown''
   \<and> fst (main_loop demo_validate 0 [''a@example.com'', ''boom@example.com'', ''b@example.com''] []) ! 2 =
     [(''email'', ''b@example.com''), (''email_status'', ''valid'')]
   \<and> length (fst (main_loop demo_validate 0
         [''a@example.com'', ''boom@example.com'', ''b@example.com''] [])) = 3"
proof -
  let ?emails = "[''a@example.com'', ''boom@example.com'', ''b@example.com'']"
  have i: "1 < length ?emails"
    by simp
  have raised: "fst (demo_validate (world_after demo_validate 0 (take 1 ?emails)) (?emails ! 1)) =
      Inl (OtherException ''kaboom'')"
    by (simp add: demo_validate_def)
  have returned: "fst (demo_validate (world_after demo_validate 0 (take 2 ?emails)) (?emails ! 2)) =
      Inr [(''email'', ''b@example.com''), (''email_status'', ''valid'')]"
    by (simp add: demo_validate_def)
  note T = main_loop_isolates_failures [where i = 1 and emails = ?emails
      and validate = demo_validate and w = 0, OF i raised refl]
  have st: "map_of (fst (main_loop demo_validate 0 ?emails []) ! 1) ''email_status'' = Some ''unknown''"
    using T by blast
  have len: "length (fst (main_loop demo_validate 0 ?emails [])) = 3"
    using T by simp
  have "\<forall>j<length ?emails. \<forall>v.
      fst (demo_validate (world_after demo_validate 0 (take j ?emails)) (?emails ! j)) = Inr v \<longrightarrow>
      fst (main_loop demo_validate 0 ?emails []) ! j = v"
    using T by blast
  then have third: "fst (main_loop demo_validate 0 ?emails []) ! 2 =
      [(''email'', ''b@example.com''), (''email_status'', ''valid'')]"
    using returned by (elim allE [of _ 2] impE) simp_all
  have second: "fst (main_loop demo_validate 0 ?emails []) ! 1 =
     [(''email'', ''boom@example.com''), (''email_status'', ''unknown''),
      (''message'', ''Internal error during validation: kaboom''),
      (''format'', ''unknown''), (''mailbox_status'', ''unknown''),
      (''mailbox_type'', ''unknown''), (''domain'', [])]"
    by (simp add: demo_validate_def)
  show ?thesis
    using second st third len by simp
qed

end
